theory Spec2Isabelle
  imports Complex_Main
begin

section \<open>Python values\<close>

text \<open>
  The feeds are decoded JSON.  A decoded document is a tree of Python values: \<open>None\<close>,
  \<open>bool\<close>, \<open>int\<close> (unbounded), \<open>float\<close>, \<open>str\<close>, \<open>list\<close> and \<open>dict\<close> with string keys.
  A \<open>dict\<close> keeps insertion order, so it is an association list; it is well formed when
  its keys are distinct.  The documents are trees: no object is reachable along two paths, so
  in-place mutation of a node record is a functional update of the one place that holds it.
\<close>

datatype exn = KeyError | TypeError | ZeroDivisionError | AttributeError | IndexError
  | ValueError | OverflowError

text \<open>
  A Python \<open>float\<close> is an IEEE binary64 value: a finite rational, an infinity or NaN.
  The sign of zero is not represented (no result below depends on it).
\<close>

datatype pyfloat = Finite rat | PInf | NInf | NaN

datatype json = JNull | JBool bool | JInt int | JFloat pyfloat | JStr string
  | JList "json list" | JDict "(string \<times> json) list"

type_synonym dict = "(string \<times> json) list"

text \<open>\<open>d[k] = v\<close> on a \<open>dict\<close>: an existing key keeps its position, a new key goes last.\<close>

fun dict_set :: "('k \<times> 'v) list \<Rightarrow> 'k \<Rightarrow> 'v \<Rightarrow> ('k \<times> 'v) list" where
  "dict_set [] k v = [(k, v)]"
| "dict_set ((k', v') # d) k v = (if k' = k then (k, v) # d else (k', v') # dict_set d k v)"

text \<open>\<open>del d[k]\<close> for a key that is present.\<close>

fun dict_del :: "('k \<times> 'v) list \<Rightarrow> 'k \<Rightarrow> ('k \<times> 'v) list" where
  "dict_del [] k = []"
| "dict_del ((k', v') # d) k = (if k' = k then d else (k', v') # dict_del d k)"

text \<open>\<open>obj[k]\<close> for a string \<open>k\<close>: only a \<open>dict\<close> can be subscripted by a string.\<close>

fun getitem :: "json \<Rightarrow> string \<Rightarrow> exn + json" where
  "getitem (JDict d) k = (case map_of d k of None \<Rightarrow> Inl KeyError | Some v \<Rightarrow> Inr v)"
| "getitem _ k = Inl TypeError"

text \<open>\<open>obj[k] = v\<close> for a string \<open>k\<close>.\<close>

fun setitem :: "json \<Rightarrow> string \<Rightarrow> json \<Rightarrow> exn + json" where
  "setitem (JDict d) k v = Inr (JDict (dict_set d k v))"
| "setitem _ k v = Inl TypeError"

text \<open>\<open>node[k1][k2] = v\<close> on a node record (a \<open>dict\<close>).\<close>

definition set_path2 :: "dict \<Rightarrow> string \<Rightarrow> string \<Rightarrow> json \<Rightarrow> exn + dict" where
  "set_path2 node k1 k2 v =
     (case map_of node k1 of
        None \<Rightarrow> Inl KeyError
      | Some obj \<Rightarrow>
          (case setitem obj k2 v of
             Inl e \<Rightarrow> Inl e
           | Inr obj' \<Rightarrow> Inr (dict_set node k1 obj')))"

text \<open>
  Only lists and dicts among the decoded values are unhashable; using one as a key of a
  \<open>dict\<close> or as a member of a \<open>set\<close> raises \<open>TypeError\<close>.  Keys are compared structurally
  (Python would also identify \<open>1\<close>, \<open>1.0\<close> and \<open>True\<close>; identifiers and addresses are
  strings in every feed).
\<close>

fun hashable :: "json \<Rightarrow> bool" where
  "hashable (JList _) = False"
| "hashable (JDict _) = False"
| "hashable _ = True"

text \<open>
  A fixed path of string keys, \<open>obj[k1][k2]...\<close>; this is also
  \<open>reduce(dict.__getitem__, path, obj)\<close>, which raises \<open>TypeError\<close> on a value that is
  not a \<open>dict\<close>.
\<close>

fun getpath :: "json \<Rightarrow> string list \<Rightarrow> exn + json" where
  "getpath v [] = Inr v"
| "getpath v (k # ks) = (case getitem v k of Inl e \<Rightarrow> Inl e | Inr v' \<Rightarrow> getpath v' ks)"

text \<open>
  \<open>for x in obj\<close>: a list gives its elements, a \<open>dict\<close> its keys, a string its
  characters; nothing else among the decoded values can be iterated.
\<close>

fun py_iter :: "json \<Rightarrow> exn + json list" where
  "py_iter (JList xs) = Inr xs"
| "py_iter (JDict d) = Inr (map (\<lambda>(k, v). JStr k) d)"
| "py_iter (JStr s) = Inr (map (\<lambda>c. JStr [c]) s)"
| "py_iter _ = Inl TypeError"

text \<open>\<open>obj.values()\<close> exists for a \<open>dict\<close> only.\<close>

fun py_values :: "json \<Rightarrow> exn + json list" where
  "py_values (JDict d) = Inr (map snd d)"
| "py_values _ = Inl AttributeError"

text \<open>Truth value of an object in a condition.\<close>

fun truthy :: "json \<Rightarrow> bool" where
  "truthy JNull = False"
| "truthy (JBool b) = b"
| "truthy (JInt i) = (i \<noteq> 0)"
| "truthy (JFloat f) = (f \<noteq> Finite 0)"
| "truthy (JStr s) = (s \<noteq> [])"
| "truthy (JList xs) = (xs \<noteq> [])"
| "truthy (JDict d) = (d \<noteq> [])"

fun is_substr :: "string \<Rightarrow> string \<Rightarrow> bool" where
  "is_substr p [] = (p = [])"
| "is_substr p (c # cs) = (take (length p) (c # cs) = p \<or> is_substr p cs)"

text \<open>
  \<open>k in obj\<close> for a string \<open>k\<close>: a key of a \<open>dict\<close>, an element of a list, a substring
  of a string; a type error on anything else.
\<close>

fun py_contains :: "string \<Rightarrow> json \<Rightarrow> exn + bool" where
  "py_contains k (JDict d) = Inr (k \<in> fst ` set d)"
| "py_contains k (JList xs) = Inr (JStr k \<in> set xs)"
| "py_contains k (JStr s) = Inr (is_substr k s)"
| "py_contains k _ = Inl TypeError"

text \<open>
  \<open>obj[i]\<close> for any index object: a \<open>dict\<close> is looked up by a hashable key (its keys are
  strings), a list or a string is indexed by an \<open>int\<close> (a \<open>bool\<close> is one), negative
  indices counting from the end.
\<close>

definition py_index :: "'a list \<Rightarrow> int \<Rightarrow> exn + 'a" where
  "py_index xs i =
     (if 0 \<le> i \<and> i < int (length xs) then Inr (xs ! nat i)
      else if i < 0 \<and> - int (length xs) \<le> i then Inr (xs ! nat (int (length xs) + i))
      else Inl IndexError)"

definition subscript :: "json \<Rightarrow> json \<Rightarrow> exn + json" where
  "subscript obj i =
     (case obj of
        JDict d \<Rightarrow>
          (case i of
             JStr k \<Rightarrow> getitem obj k
           | _ \<Rightarrow> if hashable i then Inl KeyError else Inl TypeError)
      | JList xs \<Rightarrow>
          (case i of
             JInt n \<Rightarrow> py_index xs n
           | JBool b \<Rightarrow> py_index xs (if b then 1 else 0)
           | _ \<Rightarrow> Inl TypeError)
      | JStr s \<Rightarrow>
          (case i of
             JInt n \<Rightarrow> map_sum id (\<lambda>c. JStr [c]) (py_index s n)
           | JBool b \<Rightarrow> map_sum id (\<lambda>c. JStr [c]) (py_index s (if b then 1 else 0))
           | _ \<Rightarrow> Inl TypeError)
      | _ \<Rightarrow> Inl TypeError)"

section \<open>Arithmetic\<close>

text \<open>
  Rounding of a rational to binary64, to nearest with ties to even: 53 significant bits,
  exponents down to that of the subnormal numbers, an infinity from \<open>2^1024\<close> on.
\<close>

fun bitlen_nat :: "nat \<Rightarrow> nat" where
  "bitlen_nat n = (if n = 0 then 0 else Suc (bitlen_nat (n div 2)))"

definition pow2 :: "int \<Rightarrow> rat" where
  "pow2 k = (if 0 \<le> k then 2 ^ nat k else 1 / 2 ^ nat (- k))"

text \<open>\<open>floor_log2 x\<close> is the \<open>e\<close> with \<open>2^e \<le> x < 2^(e+1)\<close>, for a positive \<open>x\<close>.\<close>

definition floor_log2 :: "rat \<Rightarrow> int" where
  "floor_log2 x =
     (if 1 \<le> x then int (bitlen_nat (nat \<lfloor>x\<rfloor>)) - 1
      else
        let k = int (bitlen_nat (nat \<lfloor>1 / x\<rfloor>)) - 1
        in if 1 / x = pow2 k then - k else - k - 1)"

definition round_half_even :: "rat \<Rightarrow> int" where
  "round_half_even x =
     (let f = \<lfloor>x\<rfloor>; d = x - of_int f
      in if d < 1 / 2 then f else if 1 / 2 < d then f + 1 else if even f then f else f + 1)"

definition fl_round :: "rat \<Rightarrow> pyfloat" where
  "fl_round x =
     (if x = 0 then Finite 0
      else
        let u = pow2 (max (floor_log2 \<bar>x\<bar>) (- 1022) - 52);
            r = of_int (round_half_even (x / u)) * u
        in if pow2 1024 \<le> r then PInf else if r \<le> - pow2 1024 then NInf else Finite r)"

fun fl_add :: "pyfloat \<Rightarrow> pyfloat \<Rightarrow> pyfloat" where
  "fl_add (Finite x) (Finite y) = fl_round (x + y)"
| "fl_add NaN _ = NaN"
| "fl_add _ NaN = NaN"
| "fl_add PInf NInf = NaN"
| "fl_add NInf PInf = NaN"
| "fl_add PInf _ = PInf"
| "fl_add NInf _ = NInf"
| "fl_add _ PInf = PInf"
| "fl_add _ NInf = NInf"

fun fl_neg :: "pyfloat \<Rightarrow> pyfloat" where
  "fl_neg (Finite x) = Finite (- x)"
| "fl_neg PInf = NInf"
| "fl_neg NInf = PInf"
| "fl_neg NaN = NaN"

definition fl_sub :: "pyfloat \<Rightarrow> pyfloat \<Rightarrow> pyfloat" where
  "fl_sub a b = fl_add a (fl_neg b)"

text \<open>The quotient of two floats, for a divisor that is not zero.\<close>

fun fl_div :: "pyfloat \<Rightarrow> pyfloat \<Rightarrow> pyfloat" where
  "fl_div (Finite x) (Finite y) = fl_round (x / y)"
| "fl_div NaN _ = NaN"
| "fl_div _ NaN = NaN"
| "fl_div (Finite x) _ = Finite 0"
| "fl_div PInf (Finite y) = (if 0 < y then PInf else NInf)"
| "fl_div NInf (Finite y) = (if 0 < y then NInf else PInf)"
| "fl_div PInf PInf = NaN"
| "fl_div PInf NInf = NaN"
| "fl_div NInf PInf = NaN"
| "fl_div NInf NInf = NaN"

text \<open>
  The numbers among the decoded values: \<open>bool\<close> is a subclass of \<open>int\<close>, so \<open>True\<close> and
  \<open>False\<close> count as 1 and 0 in arithmetic.
\<close>

datatype pynum = NInt int | NFloat pyfloat

fun as_num :: "json \<Rightarrow> pynum option" where
  "as_num (JBool b) = Some (NInt (if b then 1 else 0))"
| "as_num (JInt i) = Some (NInt i)"
| "as_num (JFloat f) = Some (NFloat f)"
| "as_num _ = None"

text \<open>Conversion of an operand to \<open>float\<close>: an \<open>int\<close> beyond the range raises.\<close>

fun to_float :: "pynum \<Rightarrow> exn + pyfloat" where
  "to_float (NFloat f) = Inr f"
| "to_float (NInt i) =
     (case fl_round (of_int i) of
        Finite r \<Rightarrow> Inr (Finite r)
      | _ \<Rightarrow> Inl OverflowError)"

text \<open>\<open>a + b\<close>: numbers add, strings and lists concatenate, anything else is a type error.\<close>

definition py_add :: "json \<Rightarrow> json \<Rightarrow> exn + json" where
  "py_add a b =
     (case (as_num a, as_num b) of
        (Some (NInt i), Some (NInt j)) \<Rightarrow> Inr (JInt (i + j))
      | (Some x, Some y) \<Rightarrow>
          (case to_float x of
             Inl e \<Rightarrow> Inl e
           | Inr f \<Rightarrow> (case to_float y of Inl e \<Rightarrow> Inl e | Inr g \<Rightarrow> Inr (JFloat (fl_add f g))))
      | _ \<Rightarrow>
          (case (a, b) of
             (JStr s, JStr t) \<Rightarrow> Inr (JStr (s @ t))
           | (JList xs, JList ys) \<Rightarrow> Inr (JList (xs @ ys))
           | _ \<Rightarrow> Inl TypeError))"

text \<open>
  \<open>a / b\<close>: true division.  Two ints give the correctly rounded quotient, or an
  \<open>OverflowError\<close> when it is too large for a float; otherwise both operands are converted
  first and the divisor is then tested for zero.
\<close>

definition py_truediv :: "json \<Rightarrow> json \<Rightarrow> exn + json" where
  "py_truediv a b =
     (case (as_num a, as_num b) of
        (Some (NInt i), Some (NInt j)) \<Rightarrow>
          (if j = 0 then Inl ZeroDivisionError
           else (case fl_round (of_int i / of_int j) of
                   Finite r \<Rightarrow> Inr (JFloat (Finite r))
                 | _ \<Rightarrow> Inl OverflowError))
      | (Some x, Some y) \<Rightarrow>
          (case to_float x of
             Inl e \<Rightarrow> Inl e
           | Inr f \<Rightarrow>
               (case to_float y of
                  Inl e \<Rightarrow> Inl e
                | Inr g \<Rightarrow>
                    (if g = Finite 0 then Inl ZeroDivisionError else Inr (JFloat (fl_div f g)))))
      | _ \<Rightarrow> Inl TypeError)"

text \<open>\<open>a - b\<close>; only numbers subtract.\<close>

definition py_sub :: "json \<Rightarrow> json \<Rightarrow> exn + json" where
  "py_sub a b =
     (case (as_num a, as_num b) of
        (Some (NInt i), Some (NInt j)) \<Rightarrow> Inr (JInt (i - j))
      | (Some x, Some y) \<Rightarrow>
          (case to_float x of
             Inl e \<Rightarrow> Inl e
           | Inr f \<Rightarrow> (case to_float y of Inl e \<Rightarrow> Inl e | Inr g \<Rightarrow> Inr (JFloat (fl_sub f g))))
      | _ \<Rightarrow> Inl TypeError)"


section \<open>Time stamps\<close>

record datetime =
  year :: nat
  month :: nat
  day :: nat
  hour :: nat
  minute :: nat
  second :: nat
  microsecond :: nat

definition digit_char :: "nat \<Rightarrow> char" where
  "digit_char n = ''0123456789'' ! (n mod 10)"

text \<open>\<open>'%0kd' % n\<close> for a number of at most \<open>k\<close> digits.\<close>

fun pad_digits :: "nat \<Rightarrow> nat \<Rightarrow> string" where
  "pad_digits 0 n = []"
| "pad_digits (Suc k) n = pad_digits k (n div 10) @ [digit_char n]"

text \<open>\<open>datetime.isoformat()\<close>: the fraction is printed only when it is not zero.\<close>

definition isoformat :: "datetime \<Rightarrow> string" where
  "isoformat t =
     pad_digits 4 (year t) @ ''-'' @ pad_digits 2 (month t) @ ''-'' @ pad_digits 2 (day t)
     @ ''T'' @ pad_digits 2 (hour t) @ '':'' @ pad_digits 2 (minute t) @ '':''
     @ pad_digits 2 (second t)
     @ (if microsecond t = 0 then [] else ''.'' @ pad_digits 6 (microsecond t))"

section \<open>The node collection\<close>

type_synonym nodes = "(json \<times> dict) list"

subsection \<open>Online marking\<close>

definition mark_online :: "dict \<Rightarrow> datetime \<Rightarrow> exn + dict" where
  "mark_online node now =
     (let node1 = dict_set node ''lastseen'' (JStr (isoformat now));
          node2 = (case map_of node1 ''firstseen'' of
                     None \<Rightarrow> dict_set node1 ''firstseen'' (JStr (isoformat now))
                   | Some _ \<Rightarrow> node1)
      in set_path2 node2 ''flags'' ''online'' (JBool True))"

subsection \<open>NodeInfo import\<close>




subsection \<open>Pruning\<close>


















text \<open>\<open>del nodes[node_id]\<close> raises \<open>KeyError\<close> for a key that is not there.\<close>

definition py_del :: "nodes \<Rightarrow> json \<Rightarrow> exn + nodes" where
  "py_del nodes k = (if k \<in> fst ` set nodes then Inr (dict_del nodes k) else Inl KeyError)"



definition prune_node :: "nodes \<Rightarrow> json \<Rightarrow> exn + nodes" where
  "prune_node nodes nodeid =
     (if \<not> hashable nodeid then Inl TypeError
      else if nodeid \<in> fst ` set nodes then py_del nodes nodeid else Inr nodes)"


subsection \<open>Address index\<close>

type_synonym macs = "(json \<times> json) list"

text \<open>
  A loop that stores into \<open>macs\<close> inside a \<open>try\<close> block returns the table as it stands when
  the loop ends, together with the exception that ended it, if any: what was stored before a
  \<open>KeyError\<close> stays stored.
\<close>

fun add_macs :: "macs \<Rightarrow> json \<Rightarrow> json list \<Rightarrow> macs \<times> exn option" where
  "add_macs macs node_id [] = (macs, None)"
| "add_macs macs node_id (mac # rest) =
     (if hashable mac then add_macs (dict_set macs mac node_id) node_id rest
      else (macs, Some TypeError))"

definition flat_macs :: "macs \<Rightarrow> json \<Rightarrow> dict \<Rightarrow> macs \<times> exn option" where
  "flat_macs macs node_id node =
     (case getpath (JDict node) [''nodeinfo'', ''network'', ''mesh_interfaces''] of
        Inl e \<Rightarrow> (macs, Some e)
      | Inr v \<Rightarrow>
          (case py_iter v of
             Inl e \<Rightarrow> (macs, Some e)
           | Inr ms \<Rightarrow> add_macs macs node_id ms))"

fun lower_macs :: "macs \<Rightarrow> json \<Rightarrow> json list \<Rightarrow> macs \<times> exn option" where
  "lower_macs macs node_id [] = (macs, None)"
| "lower_macs macs node_id (lower_if # rest) =
     (case py_iter lower_if of
        Inl e \<Rightarrow> (macs, Some e)
      | Inr ms \<Rightarrow>
          (case add_macs macs node_id ms of
             (macs', None) \<Rightarrow> lower_macs macs' node_id rest
           | (macs', Some e) \<Rightarrow> (macs', Some e)))"

fun upper_macs :: "macs \<Rightarrow> json \<Rightarrow> json list \<Rightarrow> macs \<times> exn option" where
  "upper_macs macs node_id [] = (macs, None)"
| "upper_macs macs node_id (upper_if # rest) =
     (case getitem upper_if ''interfaces'' of
        Inl e \<Rightarrow> (macs, Some e)
      | Inr ifs \<Rightarrow>
          (case py_values ifs of
             Inl e \<Rightarrow> (macs, Some e)
           | Inr lower \<Rightarrow>
               (case lower_macs macs node_id lower of
                  (macs', None) \<Rightarrow> upper_macs macs' node_id rest
                | (macs', Some e) \<Rightarrow> (macs', Some e))))"

definition nested_macs :: "macs \<Rightarrow> json \<Rightarrow> dict \<Rightarrow> macs \<times> exn option" where
  "nested_macs macs node_id node =
     (case getpath (JDict node) [''nodeinfo'', ''network'', ''mesh''] of
        Inl e \<Rightarrow> (macs, Some e)
      | Inr mesh \<Rightarrow>
          (case py_values mesh of
             Inl e \<Rightarrow> (macs, Some e)
           | Inr upper \<Rightarrow> upper_macs macs node_id upper))"

text \<open>\<open>except KeyError: pass\<close> around a block that updates a state.\<close>

fun except_KeyError :: "'s \<times> exn option \<Rightarrow> exn + 's" where
  "except_KeyError (s, None) = Inr s"
| "except_KeyError (s, Some e) = (if e = KeyError then Inr s else Inl e)"

fun mac_table_from :: "macs \<Rightarrow> nodes \<Rightarrow> exn + macs" where
  "mac_table_from macs [] = Inr macs"
| "mac_table_from macs ((node_id, node) # rest) =
     (case except_KeyError (flat_macs macs node_id node) of
        Inl e \<Rightarrow> Inl e
      | Inr macs1 \<Rightarrow>
          (case except_KeyError (nested_macs macs1 node_id node) of
             Inl e \<Rightarrow> Inl e
           | Inr macs2 \<Rightarrow> mac_table_from macs2 rest))"

definition build_mac_table :: "nodes \<Rightarrow> exn + macs" where
  "build_mac_table nodes = mac_table_from [] nodes"


subsection \<open>Uplink derivation\<close>

text \<open>The loop of \<open>check_uplink\<close> over the peers \<open>ps\<close> that iterating \<open>group['peers']\<close> gives.\<close>

fun check_peers :: "json \<Rightarrow> json list \<Rightarrow> exn + json list" where
  "check_peers peers [] = Inr []"
| "check_peers peers (peer # rest) =
     (case subscript peers peer of
        Inl e \<Rightarrow> Inl e
      | Inr status \<Rightarrow>
          (case (if truthy status then py_contains ''established'' status else Inr False) of
             Inl e \<Rightarrow> Inl e
           | Inr up \<Rightarrow>
               (case check_peers peers rest of
                  Inl e \<Rightarrow> Inl e
                | Inr found \<Rightarrow> Inr (if up then peer # found else found))))"

definition check_uplink :: "json \<Rightarrow> exn + json list" where
  "check_uplink grp =
     (case getitem grp ''peers'' of
        Inl e \<Rightarrow> Inl e
      | Inr peers \<Rightarrow>
          (case py_iter peers of
             Inl e \<Rightarrow> Inl e
           | Inr ps \<Rightarrow> check_peers peers ps))"

lemma size_map_of_json:
  "map_of d k = Some v \<Longrightarrow> size v < Suc (size_list (size_prod (\<lambda>_. 0) size) d)"
  by (induction d) (auto split: if_splits)

text \<open>
  \<open>check_uplink_recursive\<close> with its loop over \<open>groups.values()\<close>: \<open>uplink_groups\<close> is
  the loop over the groups that remain.  A group that got through \<open>check_uplink\<close> is a
  \<open>dict\<close>, so \<open>'groups' in group\<close> is a test for a key.
\<close>

function check_uplink_recursive :: "json \<Rightarrow> exn + json list"
  and uplink_groups :: "json list \<Rightarrow> exn + json list" where
  "check_uplink_recursive groups =
     (case groups of
        JDict d \<Rightarrow> uplink_groups (map snd d)
      | _ \<Rightarrow> Inl AttributeError)"
| "uplink_groups [] = Inr []"
| "uplink_groups (grp # rest) =
     (case check_uplink grp of
        Inl e \<Rightarrow> Inl e
      | Inr peers \<Rightarrow>
          (case (case grp of
                   JDict g \<Rightarrow>
                     (case map_of g ''groups'' of
                        None \<Rightarrow> Inr []
                      | Some sub \<Rightarrow> check_uplink_recursive sub)
                 | _ \<Rightarrow> Inr []) of
             Inl e \<Rightarrow> Inl e
           | Inr below \<Rightarrow>
               (case uplink_groups rest of
                  Inl e \<Rightarrow> Inl e
                | Inr others \<Rightarrow> Inr (peers @ below @ others))))"
  by pat_completeness auto
termination
proof (relation "measure (\<lambda>x. case x of Inl v \<Rightarrow> 2 * size v + 1 | Inr gs \<Rightarrow> 2 * size_list size gs)")
  show "wf (measure (\<lambda>x. case x of Inl v \<Rightarrow> 2 * size v + 1 | Inr gs \<Rightarrow> 2 * size_list size gs))"
    by simp
next
  fix groups :: json and d :: dict
  assume "groups = JDict d"
  have "size_list size (map snd d) \<le> size_list (size_prod (\<lambda>_. 0) size) d"
    by (induction d) auto
  then show "(Inr (map snd d), Inl groups)
      \<in> measure (\<lambda>x. case x of Inl v \<Rightarrow> 2 * size v + 1 | Inr gs \<Rightarrow> 2 * size_list size gs)"
    using \<open>groups = JDict d\<close> by simp
next
  fix grp :: json and rest :: "json list" and peers :: "json list" and g :: dict and sub :: json
  assume "grp = JDict g" and "map_of g ''groups'' = Some sub"
  then show "(Inl sub, Inr (grp # rest))
      \<in> measure (\<lambda>x. case x of Inl v \<Rightarrow> 2 * size v + 1 | Inr gs \<Rightarrow> 2 * size_list size gs)"
    using size_map_of_json [of g "''groups''" sub] by simp
next
  fix grp :: json and rest :: "json list" and peers :: "json list" and below :: "json list"
  show "(Inr rest, Inr (grp # rest))
      \<in> measure (\<lambda>x. case x of Inl v \<Rightarrow> 2 * size v + 1 | Inr gs \<Rightarrow> 2 * size_list size gs)"
    by simp
qed

text \<open>
  \<open>mark_uplink\<close>: the \<open>try\<close> block catches \<open>KeyError\<close> only, and a flag already set stays
  set when the store below it fails.
\<close>

definition mark_uplink_body :: "dict \<Rightarrow> dict \<Rightarrow> dict \<times> exn option" where
  "mark_uplink_body node stats =
     (case getpath (JDict stats) [''mesh_vpn'', ''groups''] of
        Inl e \<Rightarrow> (node, Some e)
      | Inr groups \<Rightarrow>
          (case check_uplink_recursive groups of
             Inl e \<Rightarrow> (node, Some e)
           | Inr peers \<Rightarrow>
               (if peers = [] then (node, None)
                else
                  (case set_path2 node ''flags'' ''uplink'' (JBool True) of
                     Inl e \<Rightarrow> (node, Some e)
                   | Inr node1 \<Rightarrow>
                       (case set_path2 node1 ''statistics'' ''vpn_peers'' (JList peers) of
                          Inl e \<Rightarrow> (node1, Some e)
                        | Inr node2 \<Rightarrow> (node2, None))))))"

definition mark_uplink :: "dict \<Rightarrow> dict \<Rightarrow> exn + dict" where
  "mark_uplink node stats = except_KeyError (mark_uplink_body node stats)"


subsection \<open>Statistics\<close>

definition reset_statistics :: "nodes \<Rightarrow> nodes" where
  "reset_statistics nodes =
     map (\<lambda>(node_id, node). (node_id, dict_set node ''statistics'' (JDict [(''clients'', JInt 0)]))) nodes"

text \<open>The exceptions that the \<open>except\<close> clause of \<open>add\<close> names.\<close>

definition add_catches :: "exn \<Rightarrow> bool" where
  "add_catches e = (e = KeyError \<or> e = TypeError \<or> e = ZeroDivisionError)"

text \<open>The right-hand side of the assignment in \<open>add\<close>: \<open>f(reduce(dict.__getitem__, source, statistics))\<close>.\<close>

definition add_value :: "dict \<Rightarrow> string list \<Rightarrow> (json \<Rightarrow> exn + json) \<Rightarrow> exn + json" where
  "add_value statistics source f =
     (case getpath (JDict statistics) source of Inl e \<Rightarrow> Inl e | Inr v \<Rightarrow> f v)"

text \<open>
  \<open>add\<close>: the value is computed first, then stored under \<open>node['statistics'][target]\<close>;
  an exception of either step that the clause names leaves the node as it was.
\<close>

definition add :: "dict \<Rightarrow> dict \<Rightarrow> string \<Rightarrow> string list \<Rightarrow> (json \<Rightarrow> exn + json) \<Rightarrow> exn + dict" where
  "add node statistics target source f =
     (case add_value statistics source f of
        Inl e \<Rightarrow> if add_catches e then Inr node else Inl e
      | Inr v \<Rightarrow>
          (case set_path2 node ''statistics'' target v of
             Inl e \<Rightarrow> if add_catches e then Inr node else Inl e
           | Inr node' \<Rightarrow> Inr node'))"

text \<open>The transform of the memory extraction:
  \<open>lambda d: 1 - (d['free'] + d['buffers'] + d['cached']) / d['total']\<close>, operands read from
  left to right.\<close>

definition memory_usage :: "json \<Rightarrow> exn + json" where
  "memory_usage d =
     (case getitem d ''free'' of Inl e \<Rightarrow> Inl e | Inr free \<Rightarrow>
     (case getitem d ''buffers'' of Inl e \<Rightarrow> Inl e | Inr buffers \<Rightarrow>
     (case py_add free buffers of Inl e \<Rightarrow> Inl e | Inr fb \<Rightarrow>
     (case getitem d ''cached'' of Inl e \<Rightarrow> Inl e | Inr cached \<Rightarrow>
     (case py_add fb cached of Inl e \<Rightarrow> Inl e | Inr used \<Rightarrow>
     (case getitem d ''total'' of Inl e \<Rightarrow> Inl e | Inr tot \<Rightarrow>
     (case py_truediv used tot of Inl e \<Rightarrow> Inl e | Inr q \<Rightarrow>
        py_sub (JInt 1) q)))))))"

text \<open>The six calls of \<open>add\<close> for one document, in the order of the source.\<close>

definition add_fields :: "dict \<Rightarrow> dict \<Rightarrow> exn + dict" where
  "add_fields node stats =
     (case add node stats ''clients'' [''clients'', ''total''] Inr of Inl e \<Rightarrow> Inl e | Inr n1 \<Rightarrow>
     (case add n1 stats ''uptime'' [''uptime''] Inr of Inl e \<Rightarrow> Inl e | Inr n2 \<Rightarrow>
     (case add n2 stats ''loadavg'' [''loadavg''] Inr of Inl e \<Rightarrow> Inl e | Inr n3 \<Rightarrow>
     (case add n3 stats ''memory_usage'' [''memory''] memory_usage of Inl e \<Rightarrow> Inl e | Inr n4 \<Rightarrow>
     (case add n4 stats ''rootfs_usage'' [''rootfs_usage''] Inr of Inl e \<Rightarrow> Inl e | Inr n5 \<Rightarrow>
        add n5 stats ''traffic'' [''traffic''] Inr)))))"

text \<open>The loop body of \<open>import_statistics\<close> for a document that names an existing node.\<close>

definition import_statistics_doc :: "dict \<Rightarrow> dict \<Rightarrow> exn + dict" where
  "import_statistics_doc node stats =
     (case add_fields node stats of Inl e \<Rightarrow> Inl e | Inr node' \<Rightarrow> mark_uplink node' stats)"

fun import_statistics_loop :: "nodes \<Rightarrow> dict list \<Rightarrow> exn + nodes" where
  "import_statistics_loop nodes [] = Inr nodes"
| "import_statistics_loop nodes (d # rest) =
     (case map_of d ''node_id'' of
        None \<Rightarrow> import_statistics_loop nodes rest
      | Some nid \<Rightarrow>
          (if \<not> hashable nid then Inl TypeError
           else
             (case map_of nodes nid of
                None \<Rightarrow> import_statistics_loop nodes rest
              | Some node \<Rightarrow>
                  (case import_statistics_doc node d of
                     Inl e \<Rightarrow> Inl e
                   | Inr node' \<Rightarrow> import_statistics_loop (dict_set nodes nid node') rest))))"

definition import_statistics :: "nodes \<Rightarrow> dict list \<Rightarrow> exn + nodes" where
  "import_statistics nodes stats =
     (case build_mac_table nodes of
        Inl e \<Rightarrow> Inl e
      | Inr macs \<Rightarrow> import_statistics_loop nodes stats)"


subsection \<open>Topology importers\<close>

text \<open>
  A Python \<open>set\<close> is kept as the list of its members without repetition.  The order in
  which a \<open>set\<close> is iterated (and in which \<open>list(s)\<close> lists it) is not defined by the
  language; the importers that iterate a set take that order as the parameter \<open>order\<close>, a
  function that rearranges the members.
\<close>

definition set_add :: "json list \<Rightarrow> json \<Rightarrow> exn + json list" where
  "set_add s x =
     (if \<not> hashable x then Inl TypeError else if x \<in> set s then Inr s else Inr (s @ [x]))"

definition set_union :: "json list \<Rightarrow> json list \<Rightarrow> json list" where
  "set_union a b = a @ filter (\<lambda>x. x \<notin> set a) b"

text \<open>\<open>set(obj)\<close>: the members of an iterable, which must be hashable.\<close>

definition py_set :: "json \<Rightarrow> exn + json list" where
  "py_set obj =
     (case py_iter obj of
        Inl e \<Rightarrow> Inl e
      | Inr xs \<Rightarrow> if list_all hashable xs then Inr (remdups xs) else Inl TypeError)"

text \<open>\<open>node[k1][k2][k3] = v\<close> on a node record.\<close>

definition set_path3 :: "dict \<Rightarrow> string \<Rightarrow> string \<Rightarrow> string \<Rightarrow> json \<Rightarrow> exn + dict" where
  "set_path3 node k1 k2 k3 v =
     (case map_of node k1 of
        None \<Rightarrow> Inl KeyError
      | Some o1 \<Rightarrow>
          (case getitem o1 k2 of
             Inl e \<Rightarrow> Inl e
           | Inr o2 \<Rightarrow>
               (case setitem o2 k3 v of
                  Inl e \<Rightarrow> Inl e
                | Inr o2' \<Rightarrow>
                    (case setitem o1 k2 o2' of
                       Inl e \<Rightarrow> Inl e
                     | Inr o1' \<Rightarrow> Inr (dict_set node k1 o1')))))"

text \<open>
  The first loop of \<open>import_mesh_ifs_vis_data\<close>: \<open>mesh_ifs\<close> maps a primary address to the
  set of addresses that the records with that primary name.
\<close>

fun group_links :: "(json \<times> json list) list \<Rightarrow> dict list \<Rightarrow> exn + (json \<times> json list) list" where
  "group_links mesh_ifs [] = Inr mesh_ifs"
| "group_links mesh_ifs (line # rest) =
     (case map_of line ''secondary'' of
        None \<Rightarrow> group_links mesh_ifs rest
      | Some secondary \<Rightarrow>
          (case map_of line ''of'' of
             None \<Rightarrow> Inl KeyError
           | Some primary \<Rightarrow>
               (if \<not> hashable primary then Inl TypeError
                else
                  (case set_add (case map_of mesh_ifs primary of None \<Rightarrow> [] | Some s \<Rightarrow> s) primary of
                     Inl e \<Rightarrow> Inl e
                   | Inr s1 \<Rightarrow>
                       (case set_add s1 secondary of
                          Inl e \<Rightarrow> Inl e
                        | Inr s2 \<Rightarrow> group_links (dict_set mesh_ifs primary s2) rest)))))"

text \<open>\<open>if_to_node\<close>: the node of the first address of the set, as iterated, that the table knows.\<close>

definition if_to_node :: "(json list \<Rightarrow> json list) \<Rightarrow> macs \<Rightarrow> json list \<Rightarrow> json option" where
  "if_to_node order macs ifs =
     (case find (\<lambda>d. d \<in> fst ` set macs) (order ifs) of
        None \<Rightarrow> None
      | Some d \<Rightarrow> map_of macs d)"

text \<open>One of the four \<open>try\<close> blocks that gather the addresses a node reports itself.\<close>

definition union_from :: "dict \<Rightarrow> string list \<Rightarrow> json list \<Rightarrow> exn + json list" where
  "union_from node path ifs =
     (case getpath (JDict node) path of
        Inl e \<Rightarrow> if e = KeyError then Inr ifs else Inl e
      | Inr v \<Rightarrow>
          (case py_set v of
             Inl e \<Rightarrow> if e = KeyError then Inr ifs else Inl e
           | Inr s \<Rightarrow> Inr (set_union ifs s)))"

definition own_ifs :: "dict \<Rightarrow> exn + json list" where
  "own_ifs node =
     (case union_from node [''nodeinfo'', ''network'', ''mesh_interfaces''] [] of
        Inl e \<Rightarrow> Inl e | Inr i1 \<Rightarrow>
     (case union_from node [''nodeinfo'', ''network'', ''mesh'', ''bat0'', ''interfaces'', ''wireless''] i1 of
        Inl e \<Rightarrow> Inl e | Inr i2 \<Rightarrow>
     (case union_from node [''nodeinfo'', ''network'', ''mesh'', ''bat0'', ''interfaces'', ''tunnel''] i2 of
        Inl e \<Rightarrow> Inl e | Inr i3 \<Rightarrow>
        union_from node [''nodeinfo'', ''network'', ''mesh'', ''bat0'', ''interfaces'', ''other''] i3)))"

text \<open>The second loop, over the groups of \<open>mesh_ifs.values()\<close>; a group that resolves to no
  node is passed over.\<close>

fun write_mesh_ifs :: "(json list \<Rightarrow> json list) \<Rightarrow> macs \<Rightarrow> nodes \<Rightarrow> json list list \<Rightarrow> exn + nodes" where
  "write_mesh_ifs order macs nodes [] = Inr nodes"
| "write_mesh_ifs order macs nodes (ifs # rest) =
     (case if_to_node order macs ifs of
        None \<Rightarrow> write_mesh_ifs order macs nodes rest
      | Some nid \<Rightarrow>
          (case map_of nodes nid of
             None \<Rightarrow> Inl KeyError
           | Some node \<Rightarrow>
               (case own_ifs node of
                  Inl e \<Rightarrow> Inl e
                | Inr own \<Rightarrow>
                    (case set_path3 node ''nodeinfo'' ''network'' ''mesh_interfaces''
                            (JList (order (set_union own ifs))) of
                       Inl e \<Rightarrow> Inl e
                     | Inr node' \<Rightarrow> write_mesh_ifs order macs (dict_set nodes nid node') rest))))"

definition import_mesh_ifs_vis_data :: "(json list \<Rightarrow> json list) \<Rightarrow> nodes \<Rightarrow> dict list \<Rightarrow> exn + nodes" where
  "import_mesh_ifs_vis_data order nodes vis_data =
     (case build_mac_table nodes of
        Inl e \<Rightarrow> Inl e
      | Inr macs \<Rightarrow>
          (case group_links [] vis_data of
             Inl e \<Rightarrow> Inl e
           | Inr mesh_ifs \<Rightarrow> write_mesh_ifs order macs nodes (map snd mesh_ifs)))"






text \<open>The address that a record adds to the set \<open>online\<close>: the first of the three fields
  that it has.\<close>

definition active_address :: "dict \<Rightarrow> json option" where
  "active_address line =
     (case map_of line ''primary'' of
        Some a \<Rightarrow> Some a
      | None \<Rightarrow>
          (case map_of line ''secondary'' of
             Some a \<Rightarrow> Some a
           | None \<Rightarrow> map_of line ''gateway''))"

fun online_set :: "json list \<Rightarrow> dict list \<Rightarrow> exn + json list" where
  "online_set online [] = Inr online"
| "online_set online (line # rest) =
     (case active_address line of
        None \<Rightarrow> online_set online rest
      | Some a \<Rightarrow>
          (case set_add online a of
             Inl e \<Rightarrow> Inl e
           | Inr online' \<Rightarrow> online_set online' rest))"

fun mark_all_online :: "macs \<Rightarrow> nodes \<Rightarrow> json list \<Rightarrow> datetime \<Rightarrow> exn + nodes" where
  "mark_all_online macs nodes [] now = Inr nodes"
| "mark_all_online macs nodes (mac # rest) now =
     (case map_of macs mac of
        None \<Rightarrow> mark_all_online macs nodes rest now
      | Some nid \<Rightarrow>
          (case map_of nodes nid of
             None \<Rightarrow> Inl KeyError
           | Some node \<Rightarrow>
               (case mark_online node now of
                  Inl e \<Rightarrow> Inl e
                | Inr node' \<Rightarrow> mark_all_online macs (dict_set nodes nid node') rest now)))"

definition mark_vis_data_online :: "(json list \<Rightarrow> json list) \<Rightarrow> nodes \<Rightarrow> dict list \<Rightarrow> datetime \<Rightarrow> exn + nodes" where
  "mark_vis_data_online order nodes vis_data now =
     (case build_mac_table nodes of
        Inl e \<Rightarrow> Inl e
      | Inr macs \<Rightarrow>
          (case online_set [] vis_data of
             Inl e \<Rightarrow> Inl e
           | Inr online \<Rightarrow> mark_all_online macs nodes (order online) now))"


section \<open>Notions used in the statements\<close>








section \<open>Example data\<close>




definition w_stat_node :: dict where
  "w_stat_node = [(''flags'', JDict [(''online'', JBool False), (''uplink'', JBool False)]),
                  (''statistics'', JDict [(''clients'', JInt 0)])]"



text \<open>A peer status counts as an established session when it is a non-empty \<open>dict\<close> that has
  the key \<open>established\<close>.\<close>

definition established_status :: "json \<Rightarrow> bool" where
  "established_status s = (case s of JDict d \<Rightarrow> d \<noteq> [] \<and> ''established'' \<in> fst ` set d | _ \<Rightarrow> False)"

definition uplink_peers :: "dict \<Rightarrow> string list" where
  "uplink_peers peers =
     filter (\<lambda>p. case map_of peers p of Some s \<Rightarrow> established_status s | None \<Rightarrow> False) (map fst peers)"

definition status_shapes :: "dict \<Rightarrow> bool" where
  "status_shapes peers = (\<forall>s \<in> snd ` set peers. s = JNull \<or> (\<exists>d. s = JDict d))"

definition w_vpn_tree :: json where
  "w_vpn_tree = JDict [(''g1'', JDict
      [(''peers'', JDict [(''aa:bb'', JDict [(''established'', JBool True)])]),
       (''groups'', JDict [(''g2'', JDict [(''peers'', JDict [(''cc:dd'', JDict [])])])])])]"

























text \<open>\<open>node['statistics'].setdefault('clients', k)\<close> on a record with statistics.\<close>

definition with_default_clients :: "dict \<Rightarrow> nat \<Rightarrow> dict" where
  "with_default_clients node k =
     (case map_of node ''statistics'' of
        Some (JDict st) \<Rightarrow>
          (case map_of st ''clients'' of
             Some c \<Rightarrow> node
           | None \<Rightarrow> dict_set node ''statistics'' (JDict (dict_set st ''clients'' (JInt (int k)))))
      | _ \<Rightarrow> node)"



section \<open>Dictionaries\<close>

lemma map_of_dict_set: "map_of (dict_set d k v) k' = (if k' = k then Some v else map_of d k')"
  by (induction d) auto





section \<open>NodeInfo import\<close>























lemma check_peers_dict:
  assumes "status_shapes ps" and "set qs \<subseteq> fst ` set ps"
  shows "check_peers (JDict ps) (map JStr qs) =
     Inr (map JStr (filter (\<lambda>p. case map_of ps p of Some s \<Rightarrow> established_status s | None \<Rightarrow> False) qs))"
  using assms(2)
proof (induction qs)
  case Nil
  show ?case by simp
next
  case (Cons q qs)
  then obtain s where s: "map_of ps q = Some s"
    by (metis list.set_intros(1) subsetD weak_map_of_SomeI map_of_eq_None_iff not_None_eq)
  then have "(q, s) \<in> set ps" by (rule map_of_SomeD)
  then have "s \<in> snd ` set ps" by force
  then have sh: "s = JNull \<or> (\<exists>d. s = JDict d)" using assms(1) unfolding status_shapes_def by blast
  have step: "(if truthy s then py_contains ''established'' s else Inr False) = Inr (established_status s)"
    using sh by (auto simp: established_status_def)
  have sub: "subscript (JDict ps) (JStr q) = Inr s" using s by (simp add: subscript_def)
  have ih: "check_peers (JDict ps) (map JStr qs) =
     Inr (map JStr (filter (\<lambda>p. case map_of ps p of Some s \<Rightarrow> established_status s | None \<Rightarrow> False) qs))"
    using Cons by simp
  show ?case by (simp add: sub step ih s)
qed

lemma check_uplink_dict:
  assumes "map_of g ''peers'' = Some (JDict ps)" and "status_shapes ps"
  shows "check_uplink (JDict g) = Inr (map JStr (uplink_peers ps))"
proof -
  have it: "py_iter (JDict ps) = Inr (map JStr (map fst ps))"
    by (simp add: case_prod_beta)
  show ?thesis
    using assms(1) check_peers_dict [OF assms(2), of "map fst ps"]
    by (simp add: check_uplink_def it uplink_peers_def del: py_iter.simps)
qed

lemma uplink_groups_Cons:
  assumes "map_of g ''peers'' = Some (JDict ps)" and "status_shapes ps"
  shows "check_uplink_recursive (JDict ((name, JDict g) # rest)) =
     (case (case map_of g ''groups'' of None \<Rightarrow> Inr [] | Some sub \<Rightarrow> check_uplink_recursive sub) of
        Inl e \<Rightarrow> Inl e
      | Inr below \<Rightarrow>
          (case check_uplink_recursive (JDict rest) of
             Inl e \<Rightarrow> Inl e
           | Inr others \<Rightarrow> Inr (map JStr (uplink_peers ps) @ below @ others)))"
proof -
  have l: "check_uplink_recursive (JDict ((name, JDict g) # rest)) = uplink_groups (JDict g # map snd rest)"
    by simp
  have r: "check_uplink_recursive (JDict rest) = uplink_groups (map snd rest)"
    by simp
  show ?thesis unfolding l r by (simp add: check_uplink_dict [OF assms])
qed

lemma mark_uplink_absent:
  assumes "getpath (JDict stats) [''mesh_vpn'', ''groups''] = Inl KeyError"
  shows "mark_uplink node stats = Inr node"
  using assms by (simp add: mark_uplink_def mark_uplink_body_def del: getpath.simps)

lemma mark_uplink_no_peers:
  assumes "getpath (JDict stats) [''mesh_vpn'', ''groups''] = Inr tree"
    and "check_uplink_recursive tree = Inr [] \<or> check_uplink_recursive tree = Inl KeyError"
  shows "mark_uplink node stats = Inr node"
  using assms
  by (auto simp add: mark_uplink_def mark_uplink_body_def
      simp del: getpath.simps check_uplink_recursive.simps)

lemma mark_uplink_peers:
  assumes "getpath (JDict stats) [''mesh_vpn'', ''groups''] = Inr tree"
    and "check_uplink_recursive tree = Inr peers" and "peers \<noteq> []"
    and "map_of node ''flags'' = Some (JDict f)" and "map_of node ''statistics'' = Some (JDict st)"
  shows "mark_uplink node stats =
     Inr (dict_set (dict_set node ''flags'' (JDict (dict_set f ''uplink'' (JBool True))))
            ''statistics'' (JDict (dict_set st ''vpn_peers'' (JList peers))))"
  using assms
  by (simp add: mark_uplink_def mark_uplink_body_def set_path2_def map_of_dict_set
      del: getpath.simps check_uplink_recursive.simps)

text \<open>
  Claim C3.  In a group whose \<open>peers\<close> map holds statuses that are null or a \<open>dict\<close>, the
  uplink peers are the peers whose status is a non-empty \<open>dict\<close> with the key
  \<open>established\<close>; the walk over the groups gives the uplink peers of a group, then those of
  the groups nested in it, then those of the groups after it.  When the walk of the tree under
  \<open>mesh_vpn.groups\<close> finds peers, \<open>flags.uplink\<close> of a node with flags and statistics
  becomes true and \<open>statistics.vpn_peers\<close> becomes the list found, and nothing else changes;
  when it finds none, or the tree or a \<open>peers\<close> map is absent, the node is left as it is.
\<close>

theorem mark_uplink_derivation:
  "(\<forall>g ps. map_of g ''peers'' = Some (JDict ps) \<and> status_shapes ps \<longrightarrow>
        check_uplink (JDict g) = Inr (map JStr (uplink_peers ps)))
   \<and> check_uplink_recursive (JDict []) = Inr []
   \<and> (\<forall>name g ps rest. map_of g ''peers'' = Some (JDict ps) \<and> status_shapes ps \<longrightarrow>
        check_uplink_recursive (JDict ((name, JDict g) # rest)) =
          (case (case map_of g ''groups'' of None \<Rightarrow> Inr [] | Some sub \<Rightarrow> check_uplink_recursive sub) of
             Inl e \<Rightarrow> Inl e
           | Inr below \<Rightarrow>
               (case check_uplink_recursive (JDict rest) of
                  Inl e \<Rightarrow> Inl e
                | Inr others \<Rightarrow> Inr (map JStr (uplink_peers ps) @ below @ others))))
   \<and> (getpath (JDict stats) [''mesh_vpn'', ''groups''] = Inl KeyError \<longrightarrow>
        mark_uplink node stats = Inr node)
   \<and> (\<forall>tree. getpath (JDict stats) [''mesh_vpn'', ''groups''] = Inr tree
          \<and> (check_uplink_recursive tree = Inr [] \<or> check_uplink_recursive tree = Inl KeyError) \<longrightarrow>
        mark_uplink node stats = Inr node)
   \<and> (\<forall>tree peers f st. getpath (JDict stats) [''mesh_vpn'', ''groups''] = Inr tree
          \<and> check_uplink_recursive tree = Inr peers \<and> peers \<noteq> []
          \<and> map_of node ''flags'' = Some (JDict f) \<and> map_of node ''statistics'' = Some (JDict st) \<longrightarrow>
        mark_uplink node stats =
          Inr (dict_set (dict_set node ''flags'' (JDict (dict_set f ''uplink'' (JBool True))))
                 ''statistics'' (JDict (dict_set st ''vpn_peers'' (JList peers)))))"
proof (intro conjI allI impI)
  fix g ps assume "map_of g ''peers'' = Some (JDict ps) \<and> status_shapes ps"
  then show "check_uplink (JDict g) = Inr (map JStr (uplink_peers ps))"
    using check_uplink_dict by blast
next
  show "check_uplink_recursive (JDict []) = Inr []" by simp
next
  fix name g ps rest assume "map_of g ''peers'' = Some (JDict ps) \<and> status_shapes ps"
  then show "check_uplink_recursive (JDict ((name, JDict g) # rest)) =
          (case (case map_of g ''groups'' of None \<Rightarrow> Inr [] | Some sub \<Rightarrow> check_uplink_recursive sub) of
             Inl e \<Rightarrow> Inl e
           | Inr below \<Rightarrow>
               (case check_uplink_recursive (JDict rest) of
                  Inl e \<Rightarrow> Inl e
                | Inr others \<Rightarrow> Inr (map JStr (uplink_peers ps) @ below @ others)))"
    using uplink_groups_Cons by blast
next
  assume "getpath (JDict stats) [''mesh_vpn'', ''groups''] = Inl KeyError"
  then show "mark_uplink node stats = Inr node" by (rule mark_uplink_absent)
next
  fix tree assume "getpath (JDict stats) [''mesh_vpn'', ''groups''] = Inr tree
          \<and> (check_uplink_recursive tree = Inr [] \<or> check_uplink_recursive tree = Inl KeyError)"
  then show "mark_uplink node stats = Inr node" using mark_uplink_no_peers by blast
next
  fix tree peers f st
  assume "getpath (JDict stats) [''mesh_vpn'', ''groups''] = Inr tree
          \<and> check_uplink_recursive tree = Inr peers \<and> peers \<noteq> []
          \<and> map_of node ''flags'' = Some (JDict f) \<and> map_of node ''statistics'' = Some (JDict st)"
  then show "mark_uplink node stats =
          Inr (dict_set (dict_set node ''flags'' (JDict (dict_set f ''uplink'' (JBool True))))
                 ''statistics'' (JDict (dict_set st ''vpn_peers'' (JList peers))))"
    using mark_uplink_peers by blast
qed

lemma w_vpn_tree_peers: "check_uplink_recursive w_vpn_tree = Inr [JStr ''aa:bb'']"
proof -
  have s1: "status_shapes [(''aa:bb'', JDict [(''established'', JBool True)])]"
    by (simp add: status_shapes_def)
  have s2: "status_shapes [(''cc:dd'', JDict [])]"
    by (simp add: status_shapes_def)
  have e: "check_uplink_recursive (JDict []) = Inr []" by simp
  have inner: "check_uplink_recursive (JDict [(''g2'', JDict [(''peers'', JDict [(''cc:dd'', JDict [])])])]) = Inr []"
    using uplink_groups_Cons [of "[(''peers'', JDict [(''cc:dd'', JDict [])])]" "[(''cc:dd'', JDict [])]" "''g2''" "[]", OF _ s2]
    by (simp add: uplink_peers_def established_status_def)
  show ?thesis
    unfolding w_vpn_tree_def
    using uplink_groups_Cons [of "[(''peers'', JDict [(''aa:bb'', JDict [(''established'', JBool True)])]),
       (''groups'', JDict [(''g2'', JDict [(''peers'', JDict [(''cc:dd'', JDict [])])])])]"
        "[(''aa:bb'', JDict [(''established'', JBool True)])]" "''g1''" "[]", OF _ s1] inner e
    by (simp add: uplink_peers_def established_status_def del: check_uplink_recursive.simps)
qed

theorem mark_uplink_derivation_witness:
  "check_uplink_recursive w_vpn_tree = Inr [JStr ''aa:bb'']
   \<and> mark_uplink w_stat_node [(''node_id'', JStr ''n1''), (''mesh_vpn'', JDict [(''groups'', w_vpn_tree)])] =
       Inr [(''flags'', JDict [(''online'', JBool False), (''uplink'', JBool True)]),
            (''statistics'', JDict [(''clients'', JInt 0), (''vpn_peers'', JList [JStr ''aa:bb''])])]
   \<and> mark_uplink w_stat_node [(''node_id'', JStr ''n1'')] = Inr w_stat_node
   \<and> mark_uplink w_stat_node [(''node_id'', JStr ''n1''), (''mesh_vpn'', JDict [(''groups'', JDict [])])] = Inr w_stat_node"
proof -
  have p: "getpath (JDict [(''node_id'', JStr ''n1''), (''mesh_vpn'', JDict [(''groups'', w_vpn_tree)])]) [''mesh_vpn'', ''groups'']
      = Inr w_vpn_tree" by simp
  have a: "mark_uplink w_stat_node [(''node_id'', JStr ''n1''), (''mesh_vpn'', JDict [(''groups'', w_vpn_tree)])] =
       Inr [(''flags'', JDict [(''online'', JBool False), (''uplink'', JBool True)]),
            (''statistics'', JDict [(''clients'', JInt 0), (''vpn_peers'', JList [JStr ''aa:bb''])])]"
    using mark_uplink_derivation [of "[(''node_id'', JStr ''n1''), (''mesh_vpn'', JDict [(''groups'', w_vpn_tree)])]" w_stat_node,
        THEN conjunct2, THEN conjunct2, THEN conjunct2, THEN conjunct2, THEN conjunct2,
        THEN spec, THEN spec, THEN spec, THEN spec,
        of w_vpn_tree "[JStr ''aa:bb'']" "[(''online'', JBool False), (''uplink'', JBool False)]" "[(''clients'', JInt 0)]"]
      p w_vpn_tree_peers
    by (simp add: w_stat_node_def del: getpath.simps)
  have b: "mark_uplink w_stat_node [(''node_id'', JStr ''n1'')] = Inr w_stat_node"
    using mark_uplink_derivation [of "[(''node_id'', JStr ''n1'')]" w_stat_node,
        THEN conjunct2, THEN conjunct2, THEN conjunct2, THEN conjunct1]
    by simp
  have c: "mark_uplink w_stat_node [(''node_id'', JStr ''n1''), (''mesh_vpn'', JDict [(''groups'', JDict [])])] = Inr w_stat_node"
    using mark_uplink_derivation [of "[(''node_id'', JStr ''n1''), (''mesh_vpn'', JDict [(''groups'', JDict [])])]" w_stat_node,
        THEN conjunct2, THEN conjunct2, THEN conjunct2, THEN conjunct2, THEN conjunct1, THEN spec, of "JDict []"]
    by simp
  show ?thesis using w_vpn_tree_peers a b c by (intro conjI)
qed































lemma with_default_clients_statistics:
  assumes "map_of node ''statistics'' = Some (JDict st)"
  shows "\<exists>st'. map_of (with_default_clients node k) ''statistics'' = Some (JDict st')"
  using assms by (simp add: with_default_clients_def map_of_dict_set split: option.splits)










end
